theory Spec2Isabelle
  imports Main "HOL-Library.Word"
begin

section \<open>Static file serving of ChisaServer (src/backups.js)\<close>

text \<open>
  The theory embeds the static-file part of \<^verbatim>\<open>class ChisaServer\<close>: the registration
  method \<^verbatim>\<open>static\<close>, the private methods \<^verbatim>\<open>#serveStaticFile\<close>,
  \<^verbatim>\<open>#handleStaticFiles\<close>, the response helpers \<^verbatim>\<open>res.sendFile\<close> and
  \<^verbatim>\<open>res.download\<close> installed by \<^verbatim>\<open>#enhanceResponse\<close>, and the first steps of the
  request callback of \<^verbatim>\<open>listen\<close>.

  JavaScript strings are \<^typ>\<open>string\<close>, file contents are lists of bytes, the response
  object is a record that every function takes and returns (so that the headers and the
  status written before an exception are still visible after it), and an exception is
  the \<open>Inl\<close> of a sum.
\<close>

subsection \<open>JavaScript values used by the code\<close>

type_synonym byte = "8 word"

text \<open>
  A JavaScript number as the code meets it: \<^verbatim>\<open>NaN\<close> or an integer. Integers are kept
  exact, which is what a double does below \<open>2^53\<close>.
\<close>

datatype jsnum = NaN | Num int

text \<open>The comparison \<^verbatim>\<open>a >= b\<close> of two numbers: false as soon as one side is NaN.\<close>

fun js_ge :: "jsnum \<Rightarrow> jsnum \<Rightarrow> bool" where
  "js_ge (Num a) (Num b) = (b \<le> a)"
| "js_ge _ _ = False"

text \<open>\<^verbatim>\<open>a > b\<close>, \<^verbatim>\<open>a - b\<close> and \<^verbatim>\<open>a + b\<close>.\<close>

fun js_gt :: "jsnum \<Rightarrow> jsnum \<Rightarrow> bool" where
  "js_gt (Num a) (Num b) = (b < a)"
| "js_gt _ _ = False"

fun js_sub :: "jsnum \<Rightarrow> jsnum \<Rightarrow> jsnum" where
  "js_sub (Num a) (Num b) = Num (a - b)"
| "js_sub _ _ = NaN"

fun js_add :: "jsnum \<Rightarrow> jsnum \<Rightarrow> jsnum" where
  "js_add (Num a) (Num b) = Num (a + b)"
| "js_add _ _ = NaN"

text \<open>What a function returns to its caller: \<^verbatim>\<open>undefined\<close> or a boolean.\<close>

datatype js_value = Undefined | JsBool bool

fun truthy :: "js_value \<Rightarrow> bool" where
  "truthy Undefined = False"
| "truthy (JsBool b) = b"

text \<open>
  Modelled from the spec: the class \<^verbatim>\<open>HttpError\<close> comes from the elided imports. Its
  constructor takes the status and the message (\<^verbatim>\<open>new HttpError(404, 'Not Found')\<close>), the
  code reads them back as \<^verbatim>\<open>err.status\<close> and \<^verbatim>\<open>err.message\<close>, and it has no
  \<^verbatim>\<open>code\<close> property.

  The other exceptions are Node's own. \<open>NodeError code message\<close> is an error thrown by the
  runtime (a failed \<^verbatim>\<open>stat\<close>, a rejected stream option): it carries \<^verbatim>\<open>code\<close> and
  \<^verbatim>\<open>message\<close> and no \<^verbatim>\<open>status\<close>. A \<^verbatim>\<open>ReferenceError\<close> and a \<^verbatim>\<open>TypeError\<close> carry
  a message only.
\<close>

datatype js_error =
    HttpError nat string
  | NodeError string string
  | ReferenceError string
  | TypeError string

fun err_code :: "js_error \<Rightarrow> string option" where
  "err_code (NodeError c m) = Some c"
| "err_code _ = None"

fun err_status :: "js_error \<Rightarrow> nat option" where
  "err_status (HttpError s m) = Some s"
| "err_status _ = None"

fun err_message :: "js_error \<Rightarrow> string" where
  "err_message (HttpError s m) = m"
| "err_message (NodeError c m) = m"
| "err_message (ReferenceError m) = m"
| "err_message (TypeError m) = m"

subsection \<open>Numbers and strings\<close>

text \<open>Decimal digits and the decimal numeral of a natural number.\<close>

definition digit_char :: "nat \<Rightarrow> char" where
  "digit_char d =
     (if d = 0 then CHR ''0'' else if d = 1 then CHR ''1'' else if d = 2 then CHR ''2''
      else if d = 3 then CHR ''3'' else if d = 4 then CHR ''4'' else if d = 5 then CHR ''5''
      else if d = 6 then CHR ''6'' else if d = 7 then CHR ''7'' else if d = 8 then CHR ''8''
      else CHR ''9'')"

definition is_digit :: "char \<Rightarrow> bool" where
  "is_digit c = (48 \<le> (of_char c :: nat) \<and> (of_char c :: nat) \<le> 57)"

definition digit_val :: "char \<Rightarrow> nat" where
  "digit_val c = of_char c - 48"

fun dec :: "nat \<Rightarrow> string" where
  "dec n = (if n < 10 then [digit_char n] else dec (n div 10) @ [digit_char (n mod 10)])"

declare dec.simps [simp del]

definition dec_val :: "string \<Rightarrow> nat" where
  "dec_val s = foldl (\<lambda>a c. 10 * a + digit_val c) 0 s"

text \<open>A number inside a template literal: \<^verbatim>\<open>`${n}`\<close>.\<close>

definition show_int :: "int \<Rightarrow> string" where
  "show_int i = (if i < 0 then CHR ''-'' # dec (nat (- i)) else dec (nat i))"

fun show_num :: "jsnum \<Rightarrow> string" where
  "show_num NaN = ''NaN''"
| "show_num (Num i) = show_int i"

text \<open>
  \<^verbatim>\<open>parseInt(s, 10)\<close>: leading white space is skipped, one sign is read, then the
  longest run of decimal digits; no digit gives NaN. White space is the part of
  JavaScript's \<^verbatim>\<open>StrWhiteSpaceChar\<close> that a header value (Latin-1) can hold.
\<close>

definition is_space :: "char \<Rightarrow> bool" where
  "is_space c = ((of_char c :: nat) \<in> {9, 10, 11, 12, 13, 32, 160})"

definition parseInt :: "string \<Rightarrow> jsnum" where
  "parseInt s =
     (let t = dropWhile is_space s;
          neg = (case t of [] \<Rightarrow> False | c # _ \<Rightarrow> c = CHR ''-'');
          u = (case t of [] \<Rightarrow> [] | c # cs \<Rightarrow> if c = CHR ''-'' \<or> c = CHR ''+'' then cs else t);
          ds = takeWhile is_digit u
      in if ds = [] then NaN
         else if neg then Num (- int (dec_val ds)) else Num (int (dec_val ds)))"

text \<open>\<^verbatim>\<open>parseInt(parts[i], 10)\<close>, where \<^verbatim>\<open>parts[i]\<close> may be \<^verbatim>\<open>undefined\<close>: that gives NaN.\<close>

fun parseInt_arg :: "string option \<Rightarrow> jsnum" where
  "parseInt_arg None = NaN"
| "parseInt_arg (Some s) = parseInt s"

text \<open>\<^verbatim>\<open>s.startsWith(p)\<close>.\<close>

definition startsWith :: "string \<Rightarrow> string \<Rightarrow> bool" where
  "startsWith s p = (take (length p) s = p)"

text \<open>
  \<^verbatim>\<open>s.replace(/bytes=/, "")\<close> with a pattern that is a plain string: the first
  occurrence is removed, the rest is kept.
\<close>

fun remove_first :: "string \<Rightarrow> string \<Rightarrow> string" where
  "remove_first pat [] = []"
| "remove_first pat (c # cs) =
     (if startsWith (c # cs) pat then drop (length pat) (c # cs)
      else c # remove_first pat cs)"

text \<open>\<^verbatim>\<open>s.split("-")\<close>: never empty, \<^verbatim>\<open>"".split("-")\<close> is \<^verbatim>\<open>[""]\<close>.\<close>

fun split_on :: "char \<Rightarrow> string \<Rightarrow> string list" where
  "split_on d [] = [[]]"
| "split_on d (c # cs) =
     (if c = d then [] # split_on d cs
      else (case split_on d cs of
              [] \<Rightarrow> [[c]]
            | p # ps \<Rightarrow> (c # p) # ps))"

text \<open>\<^verbatim>\<open>parts[i]\<close>: \<^verbatim>\<open>undefined\<close> out of range.\<close>

fun js_index :: "'a list \<Rightarrow> nat \<Rightarrow> 'a option" where
  "js_index [] i = None"
| "js_index (x # xs) 0 = Some x"
| "js_index (x # xs) (Suc i) = js_index xs i"

text \<open>Truthiness of a value that is a string or \<^verbatim>\<open>undefined\<close>.\<close>

fun str_truthy :: "string option \<Rightarrow> bool" where
  "str_truthy None = False"
| "str_truthy (Some s) = (s \<noteq> [])"

subsection \<open>Node's path module (POSIX)\<close>

text \<open>
  \<^verbatim>\<open>normalizeString\<close> walks the segments between slashes: empty segments and \<^verbatim>\<open>.\<close> are
  dropped, \<^verbatim>\<open>..\<close> removes the segment before it, and where there is none (or it is
  itself \<^verbatim>\<open>..\<close>) it is kept only when the path is relative. The accumulator holds the
  segments kept so far, last one first.
\<close>

fun normalize_segments :: "bool \<Rightarrow> string list \<Rightarrow> string list \<Rightarrow> string list" where
  "normalize_segments allowAboveRoot acc [] = rev acc"
| "normalize_segments allowAboveRoot acc (s # ss) =
     (if s = [] \<or> s = ''.'' then normalize_segments allowAboveRoot acc ss
      else if s = ''..'' then
        (case acc of
           [] \<Rightarrow> normalize_segments allowAboveRoot (if allowAboveRoot then [''..''] else []) ss
         | a # as \<Rightarrow>
             if a = ''..''
             then normalize_segments allowAboveRoot (if allowAboveRoot then ''..'' # acc else acc) ss
             else normalize_segments allowAboveRoot as ss)
      else normalize_segments allowAboveRoot (s # acc) ss)"

fun join_segments :: "string list \<Rightarrow> string" where
  "join_segments [] = []"
| "join_segments [s] = s"
| "join_segments (s # t # ss) = s @ CHR ''/'' # join_segments (t # ss)"

definition normalizeString :: "string \<Rightarrow> bool \<Rightarrow> string" where
  "normalizeString p allowAboveRoot =
     join_segments (normalize_segments allowAboveRoot [] (split_on CHR ''/'' p))"

text \<open>\<^verbatim>\<open>path.normalize(p)\<close>.\<close>

definition path_normalize :: "string \<Rightarrow> string" where
  "path_normalize p =
     (if p = [] then ''.''
      else
        let isAbsolute = (hd p = CHR ''/'');
            trailingSeparator = (last p = CHR ''/'');
            q = normalizeString p (\<not> isAbsolute)
        in if q = [] then (if isAbsolute then ''/'' else if trailingSeparator then ''./'' else ''.'')
           else
             let q' = (if trailingSeparator then q @ ''/'' else q)
             in if isAbsolute then CHR ''/'' # q' else q')"

text \<open>\<^verbatim>\<open>path.join(a, b)\<close>: the non-empty arguments are glued with a slash and normalised.\<close>

definition path_join :: "string \<Rightarrow> string \<Rightarrow> string" where
  "path_join a b =
     (if a = [] \<and> b = [] then ''.''
      else if a = [] then path_normalize b
      else if b = [] then path_normalize a
      else path_normalize (a @ CHR ''/'' # b))"

text \<open>
  \<^verbatim>\<open>path.resolve(p)\<close> in a process whose working directory is \<open>cwd\<close> (an absolute path):
  an absolute path without a trailing slash.
\<close>

definition path_resolve :: "string \<Rightarrow> string \<Rightarrow> string" where
  "path_resolve cwd p =
     (let full = (if p = [] then cwd
                  else if hd p = CHR ''/'' then p
                  else cwd @ CHR ''/'' # p)
      in CHR ''/'' # normalizeString full False)"

text \<open>\<^verbatim>\<open>path.basename(p)\<close>: the last segment, trailing slashes ignored.\<close>

definition path_basename :: "string \<Rightarrow> string" where
  "path_basename p =
     rev (takeWhile (\<lambda>c. c \<noteq> CHR ''/'') (dropWhile (\<lambda>c. c = CHR ''/'') (rev p)))"

subsection \<open>The file system, the request and the response\<close>

text \<open>
  What \<^verbatim>\<open>fs.promises.stat\<close> finds at a path: a regular file with its bytes and its
  modification time in milliseconds (\<^verbatim>\<open>stats.mtime.getTime()\<close>), a directory, or
  something that is neither. The size of a file is the number of its bytes. A failed
  \<^verbatim>\<open>stat\<close> gives the error's \<^verbatim>\<open>code\<close> and \<^verbatim>\<open>message\<close>.
\<close>

datatype fs_node = RegularFile "byte list" int | Directory | OtherNode

type_synonym filesystem = "string \<Rightarrow> (string \<times> string) + fs_node"

fun isFile :: "fs_node \<Rightarrow> bool" where
  "isFile (RegularFile bs t) = True"
| "isFile _ = False"

fun isDirectory :: "fs_node \<Rightarrow> bool" where
  "isDirectory Directory = True"
| "isDirectory _ = False"

fun node_size :: "fs_node \<Rightarrow> nat" where
  "node_size (RegularFile bs t) = length bs"
| "node_size _ = 0"

fun node_mtime :: "fs_node \<Rightarrow> int" where
  "node_mtime (RegularFile bs t) = t"
| "node_mtime _ = 0"

fun node_bytes :: "fs_node \<Rightarrow> byte list" where
  "node_bytes (RegularFile bs t) = bs"
| "node_bytes _ = []"

definition stat :: "filesystem \<Rightarrow> string \<Rightarrow> js_error + fs_node" where
  "stat f p = (case f p of Inl (c, m) \<Rightarrow> Inl (NodeError c m) | Inr n \<Rightarrow> Inr n)"

text \<open>
  The surroundings of the server: the file system, the table of the \<^verbatim>\<open>mime-types\<close>
  package (\<^verbatim>\<open>mime.lookup\<close>, \<open>None\<close> for its \<^verbatim>\<open>false\<close>), and the working directory
  that \<^verbatim>\<open>path.resolve\<close> starts from.
\<close>

record env =
  fs :: filesystem
  mime_lookup :: "string \<Rightarrow> string option"
  cwd :: string

text \<open>The parsed request: \<^verbatim>\<open>req.path\<close> and \<^verbatim>\<open>req.headers\<close>.\<close>

record request =
  req_path :: string
  req_headers :: "string \<Rightarrow> string option"

text \<open>A header value is a string or a number, as \<^verbatim>\<open>res.setHeader\<close> receives it.\<close>

datatype hval = HStr string | HNum jsnum

record response =
  statusCode :: nat
  res_headers :: "string \<Rightarrow> hval option"
  body :: "byte list"
  writableEnded :: bool

text \<open>A response as Node creates it: status 200, nothing written.\<close>

definition new_response :: response where
  "new_response = \<lparr>statusCode = 200, res_headers = (\<lambda>k. None), body = [], writableEnded = False\<rparr>"

definition setHeader :: "string \<Rightarrow> hval \<Rightarrow> response \<Rightarrow> response" where
  "setHeader k v res = res\<lparr>res_headers := (res_headers res)(k \<mapsto> v)\<rparr>"

text \<open>
  Modelled from the spec: \<^verbatim>\<open>res.status(code)\<close> is one of the elided response
  enhancements; it sets the status code and returns the response for chaining.
\<close>

definition status :: "nat \<Rightarrow> response \<Rightarrow> response" where
  "status code res = res\<lparr>statusCode := code\<rparr>"

text \<open>\<^verbatim>\<open>res.end()\<close> closes the response with no further bytes.\<close>

definition end_response :: "response \<Rightarrow> response" where
  "end_response res = res\<lparr>writableEnded := True\<rparr>"

text \<open>\<^verbatim>\<open>stream.pipe(res)\<close> writes the bytes of the stream and closes the response.\<close>

definition pipe :: "byte list \<Rightarrow> response \<Rightarrow> response" where
  "pipe bs res = res\<lparr>body := body res @ bs, writableEnded := True\<rparr>"

text \<open>
  \<^verbatim>\<open>fs.createReadStream(path, {start, end})\<close>: Node validates the options when the
  stream is created and throws \<^verbatim>\<open>ERR_OUT_OF_RANGE\<close> for an option that is not a
  non-negative integer and for \<^verbatim>\<open>start > end\<close>. The stream then yields the bytes at
  the offsets \<open>start\<close> to \<open>end\<close>, both included, as far as the file has them.
\<close>

fun valid_offset :: "jsnum \<Rightarrow> bool" where
  "valid_offset NaN = False"
| "valid_offset (Num i) = (0 \<le> i)"

fun window :: "byte list \<Rightarrow> jsnum \<Rightarrow> jsnum \<Rightarrow> byte list" where
  "window bs (Num s) (Num e) = take (nat (e - s + 1)) (drop (nat s) bs)"
| "window bs _ _ = []"

definition createReadStream :: "byte list \<Rightarrow> jsnum \<Rightarrow> jsnum \<Rightarrow> js_error + byte list" where
  "createReadStream bs start end' =
     (if valid_offset start then
        (if valid_offset end' then
           (if js_gt start end'
            then Inl (NodeError ''ERR_OUT_OF_RANGE'' ''The value of start is out of range'')
            else Inr (window bs start end'))
         else Inl (NodeError ''ERR_OUT_OF_RANGE'' ''The value of end is out of range''))
      else Inl (NodeError ''ERR_OUT_OF_RANGE'' ''The value of start is out of range''))"

subsection \<open>Registration: \<^verbatim>\<open>static(urlPath, dirPath, options)\<close>\<close>

text \<open>
  The options object of a caller: each key is present or absent. The object literal of
  the code gives every key a default and then spreads the caller's object over it, so a
  key that is present keeps the caller's value and an absent one gets the default.
\<close>

record user_options =
  u_index :: "string option"
  u_dotfiles :: "string option"
  u_etag :: "bool option"
  u_maxAge :: "int option"

definition no_options :: user_options where
  "no_options = \<lparr>u_index = None, u_dotfiles = None, u_etag = None, u_maxAge = None\<rparr>"

record static_options =
  index :: string
  dotfiles :: string
  etag :: bool
  maxAge :: int

definition staticOptions :: "user_options \<Rightarrow> static_options" where
  "staticOptions opts =
     \<lparr>index = (case u_index opts of None \<Rightarrow> ''index.html'' | Some i \<Rightarrow> i),
      dotfiles = (case u_dotfiles opts of None \<Rightarrow> ''ignore'' | Some d \<Rightarrow> d),
      etag = (case u_etag opts of None \<Rightarrow> True | Some b \<Rightarrow> b),
      maxAge = (case u_maxAge opts of None \<Rightarrow> 0 | Some m \<Rightarrow> m)\<rparr>"

text \<open>
  The options of a call that passes none (\<^verbatim>\<open>options = {}\<close>): every key is
  \<^verbatim>\<open>undefined\<close>, which the code only tests for truthiness.
\<close>

definition empty_options :: static_options where
  "empty_options = \<lparr>index = [], dotfiles = [], etag = False, maxAge = 0\<rparr>"

record mount =
  urlPath :: string
  dirPath :: string
  options :: static_options

text \<open>
  \<^verbatim>\<open>Map.prototype.set\<close> on the registry: a key that is already there keeps its place
  and gets the new value, a new key goes to the end.
\<close>

fun map_set :: "mount \<Rightarrow> mount list \<Rightarrow> mount list" where
  "map_set m [] = [m]"
| "map_set m (x # xs) = (if urlPath x = urlPath m then m # xs else x # map_set m xs)"

definition static :: "env \<Rightarrow> mount list \<Rightarrow> string \<Rightarrow> string \<Rightarrow> user_options \<Rightarrow> js_error + mount list" where
  "static E staticPaths url dir opts =
     (if url = [] \<or> dir = [] then Inl (TypeError ''URL path and directory path are required'')
      else Inr (map_set \<lparr>urlPath = url, dirPath = path_resolve (cwd E) dir,
                         options = staticOptions opts\<rparr> staticPaths))"

subsection \<open>\<^verbatim>\<open>#serveStaticFile(req, res, filePath, options)\<close>\<close>

text \<open>The validator of line 43: \<^verbatim>\<open>`W/"${stats.size}-${stats.mtime.getTime()}"`\<close>.\<close>

definition etag_value :: "nat \<Rightarrow> int \<Rightarrow> string" where
  "etag_value sz mtime =
     ''W/'' @ [CHR 0x22] @ show_int (int sz) @ ''-'' @ show_int mtime @ [CHR 0x22]"

text \<open>\<^verbatim>\<open>mime.lookup(filePath) || 'application/octet-stream'\<close>.\<close>

definition mimeType :: "env \<Rightarrow> string \<Rightarrow> string" where
  "mimeType E filePath =
     (case mime_lookup E filePath of
        None \<Rightarrow> ''application/octet-stream''
      | Some t \<Rightarrow> if t = [] then ''application/octet-stream'' else t)"

text \<open>
  The body of the \<^verbatim>\<open>try\<close> block, lines 35 to 84. The result is the exception or the
  returned value, together with the response as the block left it.
\<close>

definition serveStaticFile_try ::
  "env \<Rightarrow> request \<Rightarrow> response \<Rightarrow> string \<Rightarrow> static_options \<Rightarrow> (js_error + js_value) \<times> response" where
  "serveStaticFile_try E req res filePath opts =
     (case stat (fs E) filePath of
        Inl err \<Rightarrow> (Inl err, res)
      | Inr stats \<Rightarrow>
          if \<not> isFile stats then (Inl (HttpError 404 ''Not Found''), res)
          else
            let etag' = etag_value (node_size stats) (node_mtime stats);
                res1 = (if etag opts then setHeader ''ETag'' (HStr etag') res else res)
            in
            if etag opts \<and> req_headers req ''if-none-match'' = Some etag'
            then (Inr Undefined, end_response (status 304 res1))
            else
              let res2 = setHeader ''Content-Type'' (HStr (mimeType E filePath)) res1;
                  res3 = setHeader ''Content-Length'' (HNum (Num (int (node_size stats)))) res2;
                  res4 = (if maxAge opts = 0 then res3
                          else setHeader ''Cache-Control''
                                 (HStr (''public, max-age='' @ show_int (maxAge opts div 1000))) res3)
              in
              if str_truthy (req_headers req ''range'') then
                let range = (case req_headers req ''range'' of None \<Rightarrow> [] | Some r \<Rightarrow> r);
                    parts = split_on CHR ''-'' (remove_first ''bytes='' range);
                    start = parseInt_arg (js_index parts 0);
                    end' = (if str_truthy (js_index parts 1)
                            then parseInt_arg (js_index parts 1)
                            else Num (int (node_size stats) - 1))
                in
                if js_ge start (Num (int (node_size stats))) \<or> js_ge end' (Num (int (node_size stats)))
                then
                  (Inr Undefined,
                   end_response (status 416
                     (setHeader ''Content-Range''
                        (HStr (''bytes */'' @ show_int (int (node_size stats)))) res4)))
                else
                  let res5 = setHeader ''Content-Range''
                               (HStr (''bytes '' @ show_num start @ ''-'' @ show_num end' @ ''/''
                                      @ show_int (int (node_size stats)))) res4;
                      res6 = setHeader ''Accept-Ranges'' (HStr ''bytes'') res5;
                      res7 = setHeader ''Content-Length''
                               (HNum (js_add (js_sub end' start) (Num 1))) res6;
                      res8 = status 206 res7
                  in
                  (case createReadStream (node_bytes stats) start end' of
                     Inl err \<Rightarrow> (Inl err, res8)
                   | Inr bs \<Rightarrow> (Inr Undefined, pipe bs res8))
              else (Inr Undefined, pipe (node_bytes stats) res4))"

text \<open>The \<^verbatim>\<open>catch\<close> of lines 86 to 91 turns \<^verbatim>\<open>ENOENT\<close> into a 404 and rethrows the rest.\<close>

definition serveStaticFile ::
  "env \<Rightarrow> request \<Rightarrow> response \<Rightarrow> string \<Rightarrow> static_options \<Rightarrow> (js_error + js_value) \<times> response" where
  "serveStaticFile E req res filePath opts =
     (case serveStaticFile_try E req res filePath opts of
        (Inl err, res') \<Rightarrow>
          if err_code err = Some ''ENOENT'' then (Inl (HttpError 404 ''File Not Found''), res')
          else (Inl err, res')
      | (Inr v, res') \<Rightarrow> (Inr v, res'))"

subsection \<open>\<^verbatim>\<open>#handleStaticFiles(req, res)\<close>\<close>

text \<open>The body of the \<^verbatim>\<open>try\<close> block of one matching mount, lines 139 to 160.\<close>

definition handleStaticFiles_try ::
  "env \<Rightarrow> request \<Rightarrow> response \<Rightarrow> string \<Rightarrow> static_options \<Rightarrow> (js_error + js_value) \<times> response" where
  "handleStaticFiles_try E req res absolutePath opts =
     (case stat (fs E) absolutePath of
        Inl err \<Rightarrow> (Inl err, res)
      | Inr stats \<Rightarrow>
          if isDirectory stats then
            (if index opts = [] then (Inl (HttpError 404 ''Not Found''), res)
             else serveStaticFile E req res (path_join absolutePath (index opts)) opts)
          else if startsWith (path_basename absolutePath) ''.'' then
            (if dotfiles opts = ''deny'' then (Inl (HttpError 403 ''Forbidden''), res)
             else if dotfiles opts = ''ignore'' then (Inl (HttpError 404 ''Not Found''), res)
             else serveStaticFile E req res absolutePath opts)
          else serveStaticFile E req res absolutePath opts)"

text \<open>
  The loop over the registry in insertion order. \<^verbatim>\<open>continue\<close> is the recursive call on
  the remaining mounts; leaving the loop returns \<^verbatim>\<open>false\<close>.
\<close>

fun handleStaticFiles ::
  "env \<Rightarrow> mount list \<Rightarrow> request \<Rightarrow> response \<Rightarrow> (js_error + js_value) \<times> response" where
  "handleStaticFiles E [] req res = (Inr (JsBool False), res)"
| "handleStaticFiles E (m # ms) req res =
     (if startsWith (req_path req) (urlPath m) then
        let relativePath = drop (length (urlPath m)) (req_path req);
            absolutePath = path_join (dirPath m) relativePath
        in
        if \<not> startsWith absolutePath (dirPath m) then (Inl (HttpError 403 ''Forbidden''), res)
        else
          (case handleStaticFiles_try E req res absolutePath (options m) of
             (Inl err, res') \<Rightarrow>
               if err_code err = Some ''ENOENT'' then handleStaticFiles E ms req res'
               else (Inl err, res')
           | (Inr v, res') \<Rightarrow> (Inr v, res'))
      else handleStaticFiles E ms req res)"

subsection \<open>\<^verbatim>\<open>res.sendFile\<close> and \<^verbatim>\<open>res.download\<close>\<close>

text \<open>
  Both helpers are arrow functions created inside \<^verbatim>\<open>#enhanceResponse(res)\<close>. Their
  bodies name \<^verbatim>\<open>req\<close>, which neither they nor \<^verbatim>\<open>#enhanceResponse\<close> nor the class
  declares, so the name is looked up in what encloses the class: the module and the
  global object. \<open>outer\<close> gives the request bound to a name there, if any; evaluating an
  unbound name throws a \<^verbatim>\<open>ReferenceError\<close>.
\<close>

definition lookup_req :: "(string \<Rightarrow> request option) \<Rightarrow> js_error + request" where
  "lookup_req outer =
     (case outer ''req'' of
        None \<Rightarrow> Inl (ReferenceError ''req is not defined'')
      | Some r \<Rightarrow> Inr r)"

text \<open>
  The module of the source binds \<^verbatim>\<open>mime\<close> and \<^verbatim>\<open>ChisaServer\<close>, and its elided imports
  bind the names the class uses (\<^verbatim>\<open>path\<close>, \<^verbatim>\<open>fs\<close>, \<^verbatim>\<open>http\<close>, \<^verbatim>\<open>HttpError\<close>): none
  of them is a request.
\<close>

definition module_scope :: "string \<Rightarrow> request option" where
  "module_scope name = None"

text \<open>\<^verbatim>\<open>new HttpError(err.status || 500, err.message)\<close>.\<close>

definition wrap_error :: "js_error \<Rightarrow> js_error" where
  "wrap_error err =
     HttpError (case err_status err of None \<Rightarrow> 500 | Some s \<Rightarrow> if s = 0 then 500 else s)
               (err_message err)"

definition sendFile ::
  "env \<Rightarrow> (string \<Rightarrow> request option) \<Rightarrow> response \<Rightarrow> string \<Rightarrow> static_options
     \<Rightarrow> (js_error + js_value) \<times> response" where
  "sendFile E outer res filePath opts =
     (let absolutePath = path_resolve (cwd E) filePath
      in case lookup_req outer of
           Inl err \<Rightarrow> (Inl (wrap_error err), res)
         | Inr req \<Rightarrow>
             (case serveStaticFile E req res absolutePath opts of
                (Inl err, res') \<Rightarrow> (Inl (wrap_error err), res')
              | (Inr v, res') \<Rightarrow> (Inr Undefined, res')))"

definition download ::
  "env \<Rightarrow> (string \<Rightarrow> request option) \<Rightarrow> response \<Rightarrow> string \<Rightarrow> string option
     \<Rightarrow> (js_error + js_value) \<times> response" where
  "download E outer res filePath filename =
     (let absolutePath = path_resolve (cwd E) filePath
      in case stat (fs E) absolutePath of
           Inl err \<Rightarrow> (Inl (wrap_error err), res)
         | Inr stats \<Rightarrow>
             if \<not> isFile stats then (Inl (wrap_error (HttpError 404 ''File Not Found'')), res)
             else
               let name = (case filename of
                             None \<Rightarrow> path_basename filePath
                           | Some f \<Rightarrow> if f = [] then path_basename filePath else f);
                   res1 = setHeader ''Content-Disposition''
                            (HStr (''attachment; filename='' @ [CHR 0x22] @ name @ [CHR 0x22])) res
               in case lookup_req outer of
                    Inl err \<Rightarrow> (Inl (wrap_error err), res1)
                  | Inr req \<Rightarrow>
                      (case serveStaticFile E req res1 absolutePath empty_options of
                         (Inl err, res') \<Rightarrow> (Inl (wrap_error err), res')
                       | (Inr v, res') \<Rightarrow> (Inr Undefined, res')))"

subsection \<open>The request callback of \<^verbatim>\<open>listen\<close>\<close>

text \<open>
  Lines 174 to 185, for a request that \<^verbatim>\<open>#parseRequest\<close> has parsed: the callback returns
  when \<^verbatim>\<open>staticServed\<close> is truthy, goes on to the rest of the callback otherwise, and
  hands an exception to \<^verbatim>\<open>#handleError\<close>.
\<close>

datatype listen_outcome =
    Returned response
  | ContinuesToRest response
  | HandleError js_error response

definition listen_callback :: "env \<Rightarrow> mount list \<Rightarrow> request \<Rightarrow> response \<Rightarrow> listen_outcome" where
  "listen_callback E staticPaths req res =
     (case handleStaticFiles E staticPaths req res of
        (Inl err, res') \<Rightarrow> HandleError err res'
      | (Inr staticServed, res') \<Rightarrow>
          if truthy staticServed then Returned res' else ContinuesToRest res')"

subsection \<open>A small site used for the concrete evaluations\<close>

text \<open>
  Two directories with the same prefix, \<^verbatim>\<open>/srv/www\<close> and \<^verbatim>\<open>/srv/www-secret\<close>, and a
  third one, \<^verbatim>\<open>/srv/alt\<close>. Every other path does not exist.
\<close>

definition ex_fs :: filesystem where
  "ex_fs p =
     (if p = ''/srv/www'' \<or> p = ''/srv/www/'' then Inr Directory
      else if p = ''/srv/www/hello.txt''
        then Inr (RegularFile [104, 101, 108, 108, 111, 44, 32, 119, 111, 114] 1700000000123)
      else if p = ''/srv/www/.env'' then Inr (RegularFile [83, 61, 49] 1700000000456)
      else if p = ''/srv/www/.index.html'' then Inr (RegularFile [60, 112, 62] 1700000000789)
      else if p = ''/srv/www/docs'' then Inr Directory
      else if p = ''/srv/www-secret/key.txt'' then Inr (RegularFile [107, 101, 121] 1700000000321)
      else if p = ''/srv/alt/static/.env'' then Inr (RegularFile [65, 61, 50] 1700000000654)
      else if p = ''/srv/alt/static/docs'' then Inr (RegularFile [100, 111, 99] 1700000000987)
      else if p = ''/srv/alt/static/only.txt'' then Inr (RegularFile [111, 110, 108, 121] 1700000000111)
      else Inl (''ENOENT'', ''ENOENT: no such file or directory''))"

definition ex_env :: env where
  "ex_env = \<lparr>fs = ex_fs, mime_lookup = (\<lambda>p. None), cwd = ''/app''\<rparr>"

text \<open>A request for a path with the given \<^verbatim>\<open>Range\<close> and \<^verbatim>\<open>If-None-Match\<close> headers.\<close>

definition ex_request :: "string \<Rightarrow> string option \<Rightarrow> string option \<Rightarrow> request" where
  "ex_request p rng inm =
     \<lparr>req_path = p,
      req_headers = (\<lambda>h. if h = ''range'' then rng
                          else if h = ''if-none-match'' then inm else None)\<rparr>"

text \<open>The mount of \<^verbatim>\<open>app.static('/static', '/srv/www')\<close> with the default options.\<close>

definition ex_mount :: mount where
  "ex_mount = \<lparr>urlPath = ''/static'', dirPath = ''/srv/www'', options = staticOptions no_options\<rparr>"

text \<open>
  The mounts of \<^verbatim>\<open>app.static('/static', '/srv/www', {dotfiles: 'allow'})\<close> and of
  \<^verbatim>\<open>app.static('/static', '/srv/www', {index: '.index.html', dotfiles: 'deny'})\<close>.
\<close>

definition ex_mount_allow :: mount where
  "ex_mount_allow =
     \<lparr>urlPath = ''/static'', dirPath = ''/srv/www'',
      options = staticOptions (no_options\<lparr>u_dotfiles := Some ''allow''\<rparr>)\<rparr>"

definition ex_mount_deny :: mount where
  "ex_mount_deny =
     \<lparr>urlPath = ''/static'', dirPath = ''/srv/www'',
      options = staticOptions
        (no_options\<lparr>u_index := Some ''.index.html'', u_dotfiles := Some ''deny''\<rparr>)\<rparr>"

text \<open>The mount of \<^verbatim>\<open>app.static('/', '/srv/alt', {dotfiles: 'allow'})\<close>.\<close>

definition ex_mount_alt :: mount where
  "ex_mount_alt =
     \<lparr>urlPath = ''/'', dirPath = ''/srv/alt'',
      options = staticOptions (no_options\<lparr>u_dotfiles := Some ''allow''\<rparr>)\<rparr>"

text \<open>The mount of \<^verbatim>\<open>app.static('/static', '/srv/www', {maxAge: m})\<close>.\<close>

definition ex_mount_maxAge :: "int \<Rightarrow> mount" where
  "ex_mount_maxAge m =
     \<lparr>urlPath = ''/static'', dirPath = ''/srv/www'',
      options = staticOptions (no_options\<lparr>u_maxAge := Some m\<rparr>)\<rparr>"

section \<open>Properties\<close>

subsection \<open>Decimal numerals and string helpers\<close>

lemma is_digit_digit_char: "d < 10 \<Longrightarrow> is_digit (digit_char d)"
  by (simp add: is_digit_def digit_char_def)

lemma digit_val_digit_char: "d < 10 \<Longrightarrow> digit_val (digit_char d) = d"
  by (auto simp: digit_val_def digit_char_def)

lemma dec_digits: "list_all is_digit (dec n)"
proof (induction n rule: dec.induct)
  case (1 n)
  show ?case
  proof (cases "n < 10")
    case True
    then show ?thesis by (simp add: dec.simps [of n] is_digit_digit_char)
  next
    case False
    with 1 show ?thesis by (simp add: dec.simps [of n] is_digit_digit_char)
  qed
qed

lemma dec_nonempty: "dec n \<noteq> []"
  by (subst dec.simps) simp

lemma dec_val_snoc: "dec_val (xs @ [c]) = 10 * dec_val xs + digit_val c"
  by (simp add: dec_val_def)

lemma dec_val_dec: "dec_val (dec n) = n"
proof (induction n rule: dec.induct)
  case (1 n)
  show ?case
  proof (cases "n < 10")
    case True
    then show ?thesis by (simp add: dec.simps [of n] dec_val_def digit_val_digit_char)
  next
    case False
    with 1 have "dec_val (dec (n div 10)) = n div 10" by simp
    with False show ?thesis
      by (simp add: dec.simps [of n] dec_val_snoc digit_val_digit_char)
  qed
qed

lemma dec_inject: "dec a = dec b \<Longrightarrow> a = b"
  by (metis dec_val_dec)

lemma is_digit_not_minus: "is_digit c \<Longrightarrow> c \<noteq> CHR ''-''"
  by (auto simp: is_digit_def)

lemma digits_no_minus: "list_all is_digit s \<Longrightarrow> CHR ''-'' \<notin> set s"
  by (induction s) (auto dest: is_digit_not_minus)

text \<open>Facts that let the simplifier print a numeral.\<close>

lemmas show_eval = show_int_def dec.simps digit_char_def

lemma show_int_nat: "show_int (int n) = dec n"
  by (simp add: show_int_def)

lemma show_int_inject: "show_int i = show_int j \<Longrightarrow> i = j"
proof -
  assume eq: "show_int i = show_int j"
  have hd_dec: "\<And>n. hd (dec n) \<noteq> CHR ''-''"
    using dec_digits dec_nonempty digits_no_minus by (metis list.set_sel(1))
  show ?thesis
  proof (cases "i < 0")
    case True
    show ?thesis
    proof (cases "j < 0")
      case True
      with \<open>i < 0\<close> eq have "dec (nat (- i)) = dec (nat (- j))" by (simp add: show_int_def)
      then have "nat (- i) = nat (- j)" by (rule dec_inject)
      with True \<open>i < 0\<close> show ?thesis by simp
    next
      case False
      with \<open>i < 0\<close> eq have "CHR ''-'' # dec (nat (- i)) = dec (nat j)" by (simp add: show_int_def)
      then have "hd (dec (nat j)) = CHR ''-''" by (metis list.sel(1))
      with hd_dec show ?thesis by blast
    qed
  next
    case False
    show ?thesis
    proof (cases "j < 0")
      case True
      with False eq have "dec (nat i) = CHR ''-'' # dec (nat (- j))" by (simp add: show_int_def)
      then have "hd (dec (nat i)) = CHR ''-''" by (metis list.sel(1))
      with hd_dec show ?thesis by blast
    next
      case nj: False
      with False eq have "dec (nat i) = dec (nat j)" by (simp add: show_int_def)
      then have "nat i = nat j" by (rule dec_inject)
      with False nj show ?thesis by simp
    qed
  qed
qed

lemma append_sep_inject:
  "c \<notin> set a \<Longrightarrow> c \<notin> set a' \<Longrightarrow> a @ c # x = a' @ c # x' \<Longrightarrow> a = a' \<and> x = x'"
proof (induction a arbitrary: a')
  case Nil
  then show ?case by (cases a') auto
next
  case (Cons y ys)
  then show ?case by (cases a') auto
qed

lemma etag_value_inject:
  "etag_value s m = etag_value s' m' \<longleftrightarrow> s = s' \<and> m = m'"
proof
  assume "etag_value s m = etag_value s' m'"
  then have "dec s @ CHR ''-'' # show_int m = dec s' @ CHR ''-'' # show_int m'"
    by (simp add: etag_value_def show_int_nat)
  moreover have "CHR ''-'' \<notin> set (dec s)" "CHR ''-'' \<notin> set (dec s')"
    by (simp_all add: digits_no_minus dec_digits)
  ultimately have "dec s = dec s' \<and> show_int m = show_int m'"
    by (rule append_sep_inject [rotated 2])
  then show "s = s' \<and> m = m'"
    by (auto dest: dec_inject show_int_inject)
qed simp

lemma parseInt_digits:
  "s \<noteq> [] \<Longrightarrow> list_all is_digit s \<Longrightarrow> parseInt s = Num (int (dec_val s))"
proof -
  assume ne: "s \<noteq> []" and ds: "list_all is_digit s"
  then obtain c cs where s: "s = c # cs" by (cases s) auto
  with ds have c: "is_digit c" by simp
  then have nsp: "\<not> is_space c" and nm: "c \<noteq> CHR ''-''" and np: "c \<noteq> CHR ''+''"
    by (auto simp: is_digit_def is_space_def)
  have tw: "takeWhile is_digit s = s" using ds by (simp add: list_all_iff)
  show ?thesis using nsp nm np tw ne s
    by (simp add: parseInt_def Let_def)
qed

lemma split_on_none: "d \<notin> set s \<Longrightarrow> split_on d s = [s]"
  by (induction s) auto

lemma split_on_append: "d \<notin> set a \<Longrightarrow> split_on d (a @ d # b) = a # split_on d b"
  by (induction a) auto

lemma remove_first_prefix: "remove_first pat (pat @ rest) = rest"
proof (cases "pat @ rest")
  case Nil
  then show ?thesis by simp
next
  case (Cons a list)
  have sw: "startsWith (a # list) pat"
    unfolding Cons [symmetric] by (simp add: startsWith_def)
  have "remove_first pat (a # list) = drop (length pat) (a # list)"
    using sw by simp
  also have "\<dots> = rest"
    unfolding Cons [symmetric] by simp
  finally show ?thesis
    unfolding Cons [symmetric] .
qed

subsection \<open>Evaluating the model on the example site\<close>

text \<open>The defining equations that the simplifier unfolds to run the model on a concrete input.\<close>

lemmas path_eval = startsWith_def path_join_def path_normalize_def normalizeString_def
  path_basename_def path_resolve_def

lemmas serve_eval = handleStaticFiles_try_def serveStaticFile_def serveStaticFile_try_def
  stat_def Let_def mimeType_def setHeader_def status_def end_response_def pipe_def
  createReadStream_def parseInt_def is_space_def is_digit_def dec_val_def digit_val_def

lemmas ex_eval = ex_env_def ex_fs_def ex_request_def ex_mount_def ex_mount_alt_def
  ex_mount_allow_def ex_mount_deny_def ex_mount_maxAge_def new_response_def staticOptions_def no_options_def

subsection \<open>What \<^verbatim>\<open>#serveStaticFile\<close> can throw and return\<close>

lemma range_parts:
  assumes "list_all is_digit s" "list_all is_digit e"
  shows "split_on CHR ''-'' (remove_first ''bytes='' (''bytes='' @ s @ ''-'' @ e)) = [s, e]"
proof -
  have "remove_first ''bytes='' (''bytes='' @ s @ ''-'' @ e) = s @ ''-'' @ e"
    by (rule remove_first_prefix)
  moreover have "split_on CHR ''-'' (s @ CHR ''-'' # e) = s # split_on CHR ''-'' e"
    using assms(1) by (simp add: split_on_append digits_no_minus)
  moreover have "split_on CHR ''-'' e = [e]"
    using assms(2) by (simp add: split_on_none digits_no_minus)
  ultimately show ?thesis by simp
qed

lemma serveStaticFile_try_no_ENOENT_after_stat:
  "fs E p = Inr n \<Longrightarrow> serveStaticFile_try E req res p opts = (Inl err, r) \<Longrightarrow> err_code err \<noteq> Some ''ENOENT''"
  by (auto simp: serveStaticFile_try_def stat_def Let_def createReadStream_def
           split: if_splits sum.splits)

lemma serveStaticFile_no_ENOENT:
  "serveStaticFile E req res p opts = (Inl err, r) \<Longrightarrow> err_code err \<noteq> Some ''ENOENT''"
  by (auto simp: serveStaticFile_def split: prod.splits sum.splits if_splits)

lemma serveStaticFile_returns:
  "serveStaticFile E req res p opts = (Inr v, r) \<Longrightarrow> v = Undefined \<and> writableEnded r"
  by (auto simp: serveStaticFile_def serveStaticFile_try_def stat_def Let_def
                 end_response_def pipe_def status_def
           split: prod.splits sum.splits if_splits)

lemma serveStaticFile_regular:
  "fs E p = Inr (RegularFile bs t) \<Longrightarrow>
   serveStaticFile E req res p opts = serveStaticFile_try E req res p opts"
  by (auto simp: serveStaticFile_def dest: serveStaticFile_try_no_ENOENT_after_stat
           split: prod.splits sum.splits)

subsection \<open>The validator and the conditional request\<close>

text \<open>
  Claim C5. The ETag is a function of the size and the modification time of the file
  that takes equal values only at equal sizes and equal times: it is the same for the
  same pair and differs as soon as one of the two differs. For a regular file served with
  the \<^verbatim>\<open>etag\<close> option on, every response carries the header \<^verbatim>\<open>ETag\<close> with the value
  computed from the size and the modification time that \<^verbatim>\<open>stat\<close> reported, whatever the
  request headers are. A request whose \<^verbatim>\<open>If-None-Match\<close> header equals that value is
  answered with status 304 and no body; for any other request the code sets no 304: the
  status is the one the response had, 206 or 416.
\<close>

theorem etag_validator:
  assumes "fs E p = Inr (RegularFile bs t)"
    and "etag opts"
    and "body res = []"
  shows "(etag_value sz m = etag_value sz' m' \<longleftrightarrow> sz = sz' \<and> m = m')
       \<and> res_headers (snd (serveStaticFile E req res p opts)) ''ETag''
           = Some (HStr (etag_value (length bs) t))
       \<and> (if req_headers req ''if-none-match'' = Some (etag_value (length bs) t)
           then fst (serveStaticFile E req res p opts) = Inr Undefined
              \<and> statusCode (snd (serveStaticFile E req res p opts)) = 304
              \<and> body (snd (serveStaticFile E req res p opts)) = []
              \<and> writableEnded (snd (serveStaticFile E req res p opts))
           else statusCode (snd (serveStaticFile E req res p opts))
                  \<in> {statusCode res, 206, 416})"
proof -
  have hdr: "res_headers (snd (serveStaticFile_try E req res p opts)) ''ETag''
           = Some (HStr (etag_value (length bs) t))"
    using assms(1,2)
    by (auto simp: serveStaticFile_try_def stat_def Let_def setHeader_def status_def
                   end_response_def pipe_def
             split: sum.splits)
  have hit: "fst (serveStaticFile_try E req res p opts) = Inr Undefined
              \<and> statusCode (snd (serveStaticFile_try E req res p opts)) = 304
              \<and> body (snd (serveStaticFile_try E req res p opts)) = []
              \<and> writableEnded (snd (serveStaticFile_try E req res p opts))"
    if "req_headers req ''if-none-match'' = Some (etag_value (length bs) t)"
    using assms that
    by (simp add: serveStaticFile_try_def stat_def end_response_def status_def setHeader_def)
  have miss: "statusCode (snd (serveStaticFile_try E req res p opts)) \<in> {statusCode res, 206, 416}"
    if "req_headers req ''if-none-match'' \<noteq> Some (etag_value (length bs) t)"
    using assms(1,2) that
    by (auto simp: serveStaticFile_try_def stat_def Let_def setHeader_def status_def
                   end_response_def pipe_def
             split: sum.splits)
  from hdr hit miss show ?thesis
    by (simp add: serveStaticFile_regular [OF assms(1)] etag_value_inject)
qed

theorem etag_validator_witness:
  "fs ex_env ''/srv/www/hello.txt''
     = Inr (RegularFile [104, 101, 108, 108, 111, 44, 32, 119, 111, 114] 1700000000123)
   \<and> etag (staticOptions no_options)
   \<and> etag_value 10 1700000000123 = ''W/'' @ [CHR 0x22] @ ''10-1700000000123'' @ [CHR 0x22]
   \<and> res_headers (snd (serveStaticFile ex_env (ex_request ''/static/hello.txt'' None None)
        new_response ''/srv/www/hello.txt'' (staticOptions no_options))) ''ETag''
       = Some (HStr (''W/'' @ [CHR 0x22] @ ''10-1700000000123'' @ [CHR 0x22]))
   \<and> statusCode (snd (serveStaticFile ex_env (ex_request ''/static/hello.txt'' None None)
        new_response ''/srv/www/hello.txt'' (staticOptions no_options))) \<in> {200, 206, 416}
   \<and> res_headers (snd (serveStaticFile ex_env
        (ex_request ''/static/hello.txt'' None (Some (''W/'' @ [CHR 0x22] @ ''10-1700000000123'' @ [CHR 0x22])))
        new_response ''/srv/www/hello.txt'' (staticOptions no_options))) ''ETag''
       = Some (HStr (''W/'' @ [CHR 0x22] @ ''10-1700000000123'' @ [CHR 0x22]))
   \<and> statusCode (snd (serveStaticFile ex_env
        (ex_request ''/static/hello.txt'' None (Some (''W/'' @ [CHR 0x22] @ ''10-1700000000123'' @ [CHR 0x22])))
        new_response ''/srv/www/hello.txt'' (staticOptions no_options))) = 304
   \<and> body (snd (serveStaticFile ex_env
        (ex_request ''/static/hello.txt'' None (Some (''W/'' @ [CHR 0x22] @ ''10-1700000000123'' @ [CHR 0x22])))
        new_response ''/srv/www/hello.txt'' (staticOptions no_options))) = []"
proof -
  let ?tag = "''W/'' @ [CHR 0x22] @ ''10-1700000000123'' @ [CHR 0x22]"
  let ?plain = "ex_request ''/static/hello.txt'' None None"
  let ?cond = "ex_request ''/static/hello.txt'' None (Some ?tag)"
  have f: "fs ex_env ''/srv/www/hello.txt''
     = Inr (RegularFile [104, 101, 108, 108, 111, 44, 32, 119, 111, 114] 1700000000123)"
    by (simp add: ex_env_def ex_fs_def)
  have e: "etag (staticOptions no_options)"
    by (simp add: staticOptions_def no_options_def)
  have v: "etag_value 10 1700000000123 = ?tag"
    by (simp add: etag_value_def show_eval)
  have len: "length [104, 101, 108, 108, 111, 44, 32, 119, 111, 114 :: byte] = 10"
    by simp
  have b: "body new_response = []" and st: "statusCode new_response = 200"
    by (simp_all add: new_response_def)
  have hp: "req_headers ?plain ''if-none-match'' \<noteq> Some ?tag"
    by (simp add: ex_request_def)
  have hc: "req_headers ?cond ''if-none-match'' = Some ?tag"
    by (simp add: ex_request_def)
  note tp = etag_validator [where req = ?plain, OF f e b, unfolded len v st if_not_P [OF hp]]
  note tc = etag_validator [where req = ?cond, OF f e b, unfolded len v st if_P [OF hc]]
  from tp have p1: "res_headers (snd (serveStaticFile ex_env ?plain new_response
        ''/srv/www/hello.txt'' (staticOptions no_options))) ''ETag'' = Some (HStr ?tag)"
    and p2: "statusCode (snd (serveStaticFile ex_env ?plain new_response
        ''/srv/www/hello.txt'' (staticOptions no_options))) \<in> {200, 206, 416}"
    by blast+
  from tc have c1: "res_headers (snd (serveStaticFile ex_env ?cond new_response
        ''/srv/www/hello.txt'' (staticOptions no_options))) ''ETag'' = Some (HStr ?tag)"
    and c2: "statusCode (snd (serveStaticFile ex_env ?cond new_response
        ''/srv/www/hello.txt'' (staticOptions no_options))) = 304"
    and c3: "body (snd (serveStaticFile ex_env ?cond new_response
        ''/srv/www/hello.txt'' (staticOptions no_options))) = []"
    by blast+
  from f e v p1 p2 c1 c2 c3 show ?thesis
    by blast
qed

subsection \<open>Range requests\<close>

text \<open>
  A header \<^verbatim>\<open>bytes=<start>-<end>\<close> whose two values are runs of decimal digits, the
  second possibly empty, is cut into exactly these two values, and \<^verbatim>\<open>parseInt\<close> reads
  them as the numbers they denote.
\<close>

lemma range_start_end:
  assumes "hdr = ''bytes='' @ s @ ''-'' @ e"
    and "s \<noteq> []" "list_all is_digit s" "list_all is_digit e"
  shows "hdr \<noteq> []"
    and "parseInt_arg (js_index (split_on CHR ''-'' (remove_first ''bytes='' hdr)) 0)
           = Num (int (dec_val s))"
    and "str_truthy (js_index (split_on CHR ''-'' (remove_first ''bytes='' hdr)) 1) = (e \<noteq> [])"
    and "e \<noteq> [] \<Longrightarrow>
         parseInt_arg (js_index (split_on CHR ''-'' (remove_first ''bytes='' hdr)) 1)
           = Num (int (dec_val e))"
proof -
  have parts: "split_on CHR ''-'' (remove_first ''bytes='' hdr) = [s, e]"
    unfolding assms(1) using assms(3,4) by (rule range_parts)
  show "hdr \<noteq> []" by (simp add: assms(1))
  show "parseInt_arg (js_index (split_on CHR ''-'' (remove_first ''bytes='' hdr)) 0)
           = Num (int (dec_val s))"
    by (simp add: parts parseInt_digits assms(2,3))
  show "str_truthy (js_index (split_on CHR ''-'' (remove_first ''bytes='' hdr)) 1) = (e \<noteq> [])"
    by (simp add: parts)
  show "e \<noteq> [] \<Longrightarrow>
         parseInt_arg (js_index (split_on CHR ''-'' (remove_first ''bytes='' hdr)) 1)
           = Num (int (dec_val e))"
    by (simp add: parts parseInt_digits assms(4))
qed

lemma ex_hello:
  "fs ex_env ''/srv/www/hello.txt''
     = Inr (RegularFile [104, 101, 108, 108, 111, 44, 32, 119, 111, 114] 1700000000123)"
  by (simp add: ex_env_def ex_fs_def)

lemma ex_hello_length: "length [104, 101, 108, 108, 111, 44, 32, 119, 111, 114 :: byte] = 10"
  by simp

text \<open>
  Claim C3. For a regular file of \<open>size\<close> bytes that is not answered with 304, a header
  \<^verbatim>\<open>Range: bytes=<start>-<end>\<close> is unsatisfiable exactly when \<open>start \<ge> size\<close>, or an
  end is given and \<open>end \<ge> size\<close>. The unsatisfiable request is answered with status 416,
  \<^verbatim>\<open>Content-Range: bytes */<size>\<close> and no body; every other one gets status 206.
\<close>

theorem range_unsatisfiable:
  assumes reg: "fs E p = Inr (RegularFile bs t)"
    and fresh: "\<not> (etag opts \<and> req_headers req ''if-none-match'' = Some (etag_value (length bs) t))"
    and hdr: "req_headers req ''range'' = Some hdr" "hdr = ''bytes='' @ s @ ''-'' @ e"
    and digits: "s \<noteq> []" "list_all is_digit s" "list_all is_digit e"
    and empty: "body res = []"
  shows "if length bs \<le> dec_val s \<or> (e \<noteq> [] \<and> length bs \<le> dec_val e)
         then fst (serveStaticFile E req res p opts) = Inr Undefined
            \<and> statusCode (snd (serveStaticFile E req res p opts)) = 416
            \<and> res_headers (snd (serveStaticFile E req res p opts)) ''Content-Range''
                = Some (HStr (''bytes */'' @ dec (length bs)))
            \<and> body (snd (serveStaticFile E req res p opts)) = []
            \<and> writableEnded (snd (serveStaticFile E req res p opts))
         else statusCode (snd (serveStaticFile E req res p opts)) = 206"
proof -
  note r = range_start_end [OF hdr(2) digits]
  show ?thesis
  proof (cases "e = []")
    case True
    with r(3) have nt: "\<not> str_truthy (js_index (split_on CHR ''-'' (remove_first ''bytes='' hdr)) 1)"
      by simp
    show ?thesis
      using reg fresh hdr(1) r(1) r(2) nt empty True
      by (auto simp: serveStaticFile_regular [OF reg] serveStaticFile_try_def stat_def Let_def
                     show_int_nat end_response_def status_def setHeader_def pipe_def
               split: sum.splits)
  next
    case False
    with r(3) have tr: "str_truthy (js_index (split_on CHR ''-'' (remove_first ''bytes='' hdr)) 1)"
      by simp
    show ?thesis
      using reg fresh hdr(1) r(1) r(2) tr r(4) [OF False] empty False
      by (auto simp: serveStaticFile_regular [OF reg] serveStaticFile_try_def stat_def Let_def
                     show_int_nat end_response_def status_def setHeader_def pipe_def
               split: sum.splits)
  qed
qed

theorem range_unsatisfiable_witness:
  "fs ex_env ''/srv/www/hello.txt''
     = Inr (RegularFile [104, 101, 108, 108, 111, 44, 32, 119, 111, 114] 1700000000123)
   \<and> req_headers (ex_request ''/static/hello.txt'' (Some ''bytes=10-'') None) ''range''
       = Some (''bytes='' @ ''10'' @ ''-'' @ [])
   \<and> list_all is_digit ''10''
   \<and> dec_val ''10'' = 10
   \<and> statusCode (snd (serveStaticFile ex_env
         (ex_request ''/static/hello.txt'' (Some ''bytes=10-'') None) new_response
         ''/srv/www/hello.txt'' (staticOptions no_options))) = 416
   \<and> res_headers (snd (serveStaticFile ex_env
         (ex_request ''/static/hello.txt'' (Some ''bytes=10-'') None) new_response
         ''/srv/www/hello.txt'' (staticOptions no_options))) ''Content-Range''
       = Some (HStr ''bytes */10'')
   \<and> body (snd (serveStaticFile ex_env
         (ex_request ''/static/hello.txt'' (Some ''bytes=10-'') None) new_response
         ''/srv/www/hello.txt'' (staticOptions no_options))) = []"
proof -
  let ?req = "ex_request ''/static/hello.txt'' (Some ''bytes=10-'') None"
  let ?bs = "[104, 101, 108, 108, 111, 44, 32, 119, 111, 114 :: byte]"
  have fr: "\<not> (etag (staticOptions no_options)
              \<and> req_headers ?req ''if-none-match'' = Some (etag_value (length ?bs) 1700000000123))"
    by (simp add: ex_request_def)
  have h1: "req_headers ?req ''range'' = Some ''bytes=10-''"
    by (simp add: ex_request_def)
  have h2: "''bytes=10-'' = ''bytes='' @ ''10'' @ ''-'' @ []"
    by simp
  have d1: "''10'' \<noteq> []" and d2: "list_all is_digit ''10''" and d3: "list_all is_digit []"
    by (simp_all add: is_digit_def)
  have b: "body new_response = []"
    by (simp add: new_response_def)
  have v: "dec_val ''10'' = 10"
    by (simp add: dec_val_def digit_val_def)
  have c: "10 \<le> dec_val ''10'' \<or> ([] \<noteq> [] \<and> 10 \<le> dec_val [])"
    unfolding v by simp
  have p: "dec 10 = ''10''"
    by (simp add: show_eval)
  note th = range_unsatisfiable [OF ex_hello fr h1 h2 d1 d2 d3 b]
  from th have
    "statusCode (snd (serveStaticFile ex_env ?req new_response ''/srv/www/hello.txt''
        (staticOptions no_options))) = 416
     \<and> res_headers (snd (serveStaticFile ex_env ?req new_response ''/srv/www/hello.txt''
        (staticOptions no_options))) ''Content-Range'' = Some (HStr (''bytes */'' @ dec 10))
     \<and> body (snd (serveStaticFile ex_env ?req new_response ''/srv/www/hello.txt''
        (staticOptions no_options))) = []"
    unfolding ex_hello_length if_P [OF c] by blast
  then show ?thesis
    unfolding p using ex_hello h1 d2 v by simp
qed



text \<open>
  Claim C2. The byte range that the range negotiation hands to the stream is meant to
  satisfy \<open>0 \<le> start \<le> end < size\<close>, with both values of the header read as
  non-negative integers. The code only compares each value with the size. For
  \<^verbatim>\<open>Range: bytes=5-2\<close> on the ten bytes of \<^verbatim>\<open>hello.txt\<close> it sets status 206,
  \<^verbatim>\<open>Content-Range: bytes 5-2/10\<close> and a \<^verbatim>\<open>Content-Length\<close> of \<open>-2\<close>, and the range
  \<open>{start: 5, end: 2}\<close> is refused by \<^verbatim>\<open>fs.createReadStream\<close>. For \<^verbatim>\<open>Range: bytes=-5\<close>
  the start is \<^verbatim>\<open>NaN\<close> and the status is 206 as well.
\<close>

theorem reversed_range_passes_negotiation:
  "fst (handleStaticFiles ex_env [ex_mount]
          (ex_request ''/static/hello.txt'' (Some ''bytes=5-2'') None) new_response)
     = Inl (NodeError ''ERR_OUT_OF_RANGE'' ''The value of start is out of range'')
   \<and> statusCode (snd (handleStaticFiles ex_env [ex_mount]
          (ex_request ''/static/hello.txt'' (Some ''bytes=5-2'') None) new_response)) = 206
   \<and> res_headers (snd (handleStaticFiles ex_env [ex_mount]
          (ex_request ''/static/hello.txt'' (Some ''bytes=5-2'') None) new_response))
        ''Content-Range'' = Some (HStr ''bytes 5-2/10'')
   \<and> res_headers (snd (handleStaticFiles ex_env [ex_mount]
          (ex_request ''/static/hello.txt'' (Some ''bytes=5-2'') None) new_response))
        ''Content-Length'' = Some (HNum (Num (- 2)))
   \<and> statusCode (snd (handleStaticFiles ex_env [ex_mount]
          (ex_request ''/static/hello.txt'' (Some ''bytes=-5'') None) new_response)) = 206
   \<and> res_headers (snd (handleStaticFiles ex_env [ex_mount]
          (ex_request ''/static/hello.txt'' (Some ''bytes=-5'') None) new_response))
        ''Content-Range'' = Some (HStr ''bytes NaN-5/10'')"
  by (simp add: path_eval serve_eval ex_eval show_eval)

subsection \<open>The containment check\<close>

text \<open>
  Claim C1. A request path that leaves the root of its mount is meant to be answered with
  403. The check of line 134 compares strings: \<^verbatim>\<open>/srv/www-secret/key.txt\<close> starts with
  the root \<^verbatim>\<open>/srv/www\<close> without being below it, so the request
  \<^verbatim>\<open>/static/../www-secret/key.txt\<close> passes the check and the file outside the root is
  served with status 200.
\<close>

theorem sibling_directory_served:
  "path_join ''/srv/www'' (drop (length ''/static'') ''/static/../www-secret/key.txt'')
     = ''/srv/www-secret/key.txt''
   \<and> startsWith ''/srv/www-secret/key.txt'' ''/srv/www''
   \<and> fst (handleStaticFiles ex_env [ex_mount]
           (ex_request ''/static/../www-secret/key.txt'' None None) new_response)
       = Inr Undefined
   \<and> statusCode (snd (handleStaticFiles ex_env [ex_mount]
           (ex_request ''/static/../www-secret/key.txt'' None None) new_response)) = 200
   \<and> body (snd (handleStaticFiles ex_env [ex_mount]
           (ex_request ''/static/../www-secret/key.txt'' None None) new_response))
       = [107, 101, 121]"
  by (simp add: path_eval serve_eval ex_eval)

subsection \<open>The loop over the mounts\<close>

text \<open>
  An exception with the code \<^verbatim>\<open>ENOENT\<close> reaches the \<^verbatim>\<open>catch\<close> of line 161 only from
  the \<^verbatim>\<open>stat\<close> of line 139, before the response is touched: \<^verbatim>\<open>#serveStaticFile\<close>
  has already turned its own into an \<^verbatim>\<open>HttpError\<close>. A call that returns has answered
  the request and returns \<^verbatim>\<open>undefined\<close>, unless no mount served and it returns
  \<^verbatim>\<open>false\<close> with the response untouched.
\<close>

lemma handleStaticFiles_try_ENOENT:
  assumes "handleStaticFiles_try E req res p opts = (Inl err, r)"
    and "err_code err = Some ''ENOENT''"
  shows "stat (fs E) p = Inl err \<and> r = res"
proof (cases "stat (fs E) p")
  case (Inl e)
  with assms(1) show ?thesis by (simp add: handleStaticFiles_try_def)
next
  case (Inr n)
  with assms show ?thesis
    by (auto simp: handleStaticFiles_try_def dest: serveStaticFile_no_ENOENT split: if_splits)
qed

lemma handleStaticFiles_try_returns:
  "handleStaticFiles_try E req res p opts = (Inr v, r) \<Longrightarrow> v = Undefined \<and> writableEnded r"
  by (auto simp: handleStaticFiles_try_def dest: serveStaticFile_returns
           split: sum.splits if_splits)

lemma handleStaticFiles_returns:
  "handleStaticFiles E ms req res = (Inr v, r) \<Longrightarrow>
     (v = Undefined \<and> writableEnded r) \<or> (v = JsBool False \<and> r = res)"
proof (induction ms)
  case Nil
  then show ?case by simp
next
  case (Cons m ms)
  show ?case
  proof (cases "startsWith (req_path req) (urlPath m)")
    case False
    with Cons show ?thesis by simp
  next
    case True
    let ?abs = "path_join (dirPath m) (drop (length (urlPath m)) (req_path req))"
    show ?thesis
    proof (cases "startsWith ?abs (dirPath m)")
      case False
      with True Cons.prems show ?thesis by (simp add: Let_def)
    next
      case inside: True
      obtain x r' where t: "handleStaticFiles_try E req res ?abs (options m) = (x, r')"
        by (cases "handleStaticFiles_try E req res ?abs (options m)") auto
      show ?thesis
      proof (cases x)
        case (Inr v')
        with t True inside Cons.prems have "v' = v" "r' = r"
          by (simp_all add: Let_def)
        with t Inr handleStaticFiles_try_returns show ?thesis by blast
      next
        case (Inl err)
        show ?thesis
        proof (cases "err_code err = Some ''ENOENT''")
          case False
          with t Inl True inside Cons.prems show ?thesis by (simp add: Let_def)
        next
          case enoent: True
          with t Inl have "r' = res"
            using handleStaticFiles_try_ENOENT by blast
          with t Inl enoent True inside Cons.prems
          have "handleStaticFiles E ms req res = (Inr v, r)"
            by (simp add: Let_def)
          with Cons.IH show ?thesis .
        qed
      qed
    qed
  qed
qed

text \<open>
  Claim C9. When \<^verbatim>\<open>#handleStaticFiles\<close> returns after the request has been answered
  (the response was open before the call and is ended after it, as it is after a 200, a
  206 and a 304), the value it returns is \<^verbatim>\<open>undefined\<close>, which is falsy, so the
  guard \<^verbatim>\<open>if (staticServed) return\<close> of the request callback does not stop and the
  callback goes on to the code after it.
\<close>

theorem served_request_returns_undefined:
  assumes "handleStaticFiles E staticPaths req res = (Inr v, r)"
    and "\<not> writableEnded res"
    and "writableEnded r"
  shows "v = Undefined \<and> \<not> truthy v
       \<and> listen_callback E staticPaths req res = ContinuesToRest r"
proof -
  from handleStaticFiles_returns [OF assms(1)] assms(2,3) have "v = Undefined"
    by auto
  with assms(1) show ?thesis
    by (simp add: listen_callback_def)
qed

theorem served_request_returns_undefined_witness:
  "\<not> writableEnded new_response
   \<and> writableEnded (snd (handleStaticFiles ex_env [ex_mount]
          (ex_request ''/static/hello.txt'' None None) new_response))
   \<and> statusCode (snd (handleStaticFiles ex_env [ex_mount]
          (ex_request ''/static/hello.txt'' None None) new_response)) = 200
   \<and> fst (handleStaticFiles ex_env [ex_mount]
          (ex_request ''/static/hello.txt'' None None) new_response) = Inr Undefined
   \<and> listen_callback ex_env [ex_mount] (ex_request ''/static/hello.txt'' None None) new_response
       = ContinuesToRest (snd (handleStaticFiles ex_env [ex_mount]
          (ex_request ''/static/hello.txt'' None None) new_response))"
proof -
  let ?X = "handleStaticFiles ex_env [ex_mount] (ex_request ''/static/hello.txt'' None None)
              new_response"
  have v: "fst ?X = Inr Undefined"
    by (simp add: path_eval serve_eval ex_eval)
  have w: "writableEnded (snd ?X)"
    by (simp add: path_eval serve_eval ex_eval)
  have c: "statusCode (snd ?X) = 200"
    by (simp add: path_eval serve_eval ex_eval)
  have n: "\<not> writableEnded new_response"
    by (simp add: new_response_def)
  have x: "?X = (Inr Undefined, snd ?X)"
    using v by (metis prod.collapse)
  from served_request_returns_undefined [OF x n w] v w c n show ?thesis
    by blast
qed

text \<open>
  Claim C6, as the code has it. For a mount whose prefix matches: a joined path that does
  not start with the root throws 403 at once; if the \<^verbatim>\<open>stat\<close> of the joined path fails
  with the code \<^verbatim>\<open>ENOENT\<close> the search continues with the next mount; if it fails with
  another code that error is thrown unchanged; and once the \<^verbatim>\<open>stat\<close> has succeeded,
  whatever the rest of the \<^verbatim>\<open>try\<close> block produces is the result of the whole search,
  the later mounts are not tried. The last case holds the 404 of a dotfile under the
  \<^verbatim>\<open>ignore\<close> policy, the 404 of a directory without an index option and the 404 of a
  directory whose index file is missing.
\<close>

theorem mount_fallthrough:
  assumes "startsWith (req_path req) (urlPath m)"
    and "absolutePath = path_join (dirPath m) (drop (length (urlPath m)) (req_path req))"
  shows "handleStaticFiles E (m # ms) req res =
           (if \<not> startsWith absolutePath (dirPath m) then (Inl (HttpError 403 ''Forbidden''), res)
            else
              (case stat (fs E) absolutePath of
                 Inl err \<Rightarrow>
                   if err_code err = Some ''ENOENT'' then handleStaticFiles E ms req res
                   else (Inl err, res)
               | Inr stats \<Rightarrow> handleStaticFiles_try E req res absolutePath (options m)))"
proof (cases "startsWith absolutePath (dirPath m)")
  case False
  with assms show ?thesis by (simp add: Let_def)
next
  case inside: True
  show ?thesis
  proof (cases "stat (fs E) absolutePath")
    case (Inl err)
    then have "handleStaticFiles_try E req res absolutePath (options m) = (Inl err, res)"
      by (simp add: handleStaticFiles_try_def)
    with assms inside Inl show ?thesis by (simp add: Let_def)
  next
    case (Inr stats)
    obtain x r' where t: "handleStaticFiles_try E req res absolutePath (options m) = (x, r')"
      by (cases "handleStaticFiles_try E req res absolutePath (options m)") auto
    have "\<And>err. x = Inl err \<Longrightarrow> err_code err \<noteq> Some ''ENOENT''"
      using t Inr handleStaticFiles_try_ENOENT by fastforce
    with t assms inside Inr show ?thesis
      by (cases x) (simp_all add: Let_def)
  qed
qed

theorem mount_fallthrough_witness:
  "startsWith (req_path (ex_request ''/static/only.txt'' None None)) (urlPath ex_mount)
   \<and> ''/srv/www/only.txt''
       = path_join (dirPath ex_mount)
           (drop (length (urlPath ex_mount)) (req_path (ex_request ''/static/only.txt'' None None)))
   \<and> stat (fs ex_env) ''/srv/www/only.txt''
       = Inl (NodeError ''ENOENT'' ''ENOENT: no such file or directory'')
   \<and> handleStaticFiles ex_env [ex_mount, ex_mount_alt]
         (ex_request ''/static/only.txt'' None None) new_response
       = handleStaticFiles ex_env [ex_mount_alt]
           (ex_request ''/static/only.txt'' None None) new_response
   \<and> statusCode (snd (handleStaticFiles ex_env [ex_mount_alt]
         (ex_request ''/static/only.txt'' None None) new_response)) = 200
   \<and> body (snd (handleStaticFiles ex_env [ex_mount_alt]
         (ex_request ''/static/only.txt'' None None) new_response)) = [111, 110, 108, 121]"
proof -
  let ?req = "ex_request ''/static/only.txt'' None None"
  have m: "startsWith (req_path ?req) (urlPath ex_mount)"
    by (simp add: path_eval ex_eval)
  have a: "''/srv/www/only.txt''
       = path_join (dirPath ex_mount) (drop (length (urlPath ex_mount)) (req_path ?req))"
    by (simp add: path_eval ex_eval)
  have i: "startsWith ''/srv/www/only.txt'' (dirPath ex_mount)"
    by (simp add: path_eval ex_eval)
  have st: "stat (fs ex_env) ''/srv/www/only.txt''
       = Inl (NodeError ''ENOENT'' ''ENOENT: no such file or directory'')"
    by (simp add: stat_def ex_eval)
  have s: "statusCode (snd (handleStaticFiles ex_env [ex_mount_alt] ?req new_response)) = 200"
    "body (snd (handleStaticFiles ex_env [ex_mount_alt] ?req new_response)) = [111, 110, 108, 121]"
    by (simp_all add: path_eval serve_eval ex_eval)
  from mount_fallthrough [OF m a, of ex_env "[ex_mount_alt]" new_response]
  have "handleStaticFiles ex_env [ex_mount, ex_mount_alt] ?req new_response
        = handleStaticFiles ex_env [ex_mount_alt] ?req new_response"
    unfolding st using i by (simp del: handleStaticFiles.simps)
  with m a st s show ?thesis
    by blast
qed

text \<open>
  The claim as the spec words it fails. With the mounts \<^verbatim>\<open>/static\<close> on \<^verbatim>\<open>/srv/www\<close>
  and then \<^verbatim>\<open>/\<close> on \<^verbatim>\<open>/srv/alt\<close>, the second mount alone serves
  \<^verbatim>\<open>/static/.env\<close> and \<^verbatim>\<open>/static/docs\<close>; behind the first mount, where \<^verbatim>\<open>.env\<close> is an
  ignored dotfile and \<^verbatim>\<open>docs\<close> a directory without \<^verbatim>\<open>index.html\<close>, both requests end
  with a 404 and the second mount is never tried.
\<close>

theorem ignored_dotfile_and_missing_index_end_the_search:
  "fst (handleStaticFiles ex_env [ex_mount, ex_mount_alt]
          (ex_request ''/static/.env'' None None) new_response)
     = Inl (HttpError 404 ''Not Found'')
   \<and> fst (handleStaticFiles ex_env [ex_mount_alt]
          (ex_request ''/static/.env'' None None) new_response) = Inr Undefined
   \<and> fst (handleStaticFiles ex_env [ex_mount, ex_mount_alt]
          (ex_request ''/static/docs'' None None) new_response)
     = Inl (HttpError 404 ''File Not Found'')
   \<and> fst (handleStaticFiles ex_env [ex_mount_alt]
          (ex_request ''/static/docs'' None None) new_response) = Inr Undefined"
  by (simp add: path_eval serve_eval ex_eval)

subsection \<open>Dotfiles\<close>

text \<open>A plain request for a regular file: status 200 and the whole file.\<close>

lemma serveStaticFile_plain:
  assumes "fs E p = Inr (RegularFile bs t)"
    and "\<not> (etag opts \<and> req_headers req ''if-none-match'' = Some (etag_value (length bs) t))"
    and "\<not> str_truthy (req_headers req ''range'')"
  shows "fst (serveStaticFile E req res p opts) = Inr Undefined"
    and "statusCode (snd (serveStaticFile E req res p opts)) = statusCode res"
    and "body (snd (serveStaticFile E req res p opts)) = body res @ bs"
    and "writableEnded (snd (serveStaticFile E req res p opts))"
    and "res_headers (snd (serveStaticFile E req res p opts)) ''Content-Length''
           = Some (HNum (Num (int (length bs))))"
  using assms
  by (auto simp: serveStaticFile_regular [OF assms(1)] serveStaticFile_try_def stat_def Let_def
                 setHeader_def pipe_def)

text \<open>
  Claim C7, as the code has it. When the joined path of the request is itself something
  other than a directory and its last segment begins with a dot, then under \<^verbatim>\<open>deny\<close>
  the request fails with 403, under \<^verbatim>\<open>ignore\<close> with 404, and under any other policy
  (\<^verbatim>\<open>allow\<close>) the file is served as any other file is: for a regular file, with no
  \<^verbatim>\<open>Range\<close> header and no matching \<^verbatim>\<open>If-None-Match\<close>, status 200 and the whole content.
  The check reads the last segment of the joined path and sits after the directory branch,
  which returns before it, so an index file is never checked.
\<close>

theorem dotfile_policy:
  assumes "startsWith (req_path req) (urlPath m)"
    and "absolutePath = path_join (dirPath m) (drop (length (urlPath m)) (req_path req))"
    and "startsWith absolutePath (dirPath m)"
    and "fs E absolutePath = Inr node"
    and "\<not> isDirectory node"
    and "startsWith (path_basename absolutePath) ''.''"
  shows "handleStaticFiles E (m # ms) req res =
           (if dotfiles (options m) = ''deny'' then (Inl (HttpError 403 ''Forbidden''), res)
            else if dotfiles (options m) = ''ignore'' then (Inl (HttpError 404 ''Not Found''), res)
            else serveStaticFile E req res absolutePath (options m))
       \<and> (dotfiles (options m) = ''allow'' \<and> node = RegularFile bs t
            \<and> \<not> (etag (options m)
                   \<and> req_headers req ''if-none-match'' = Some (etag_value (length bs) t))
            \<and> \<not> str_truthy (req_headers req ''range'')
            \<and> res = new_response
          \<longrightarrow> fst (handleStaticFiles E (m # ms) req res) = Inr Undefined
            \<and> statusCode (snd (handleStaticFiles E (m # ms) req res)) = 200
            \<and> body (snd (handleStaticFiles E (m # ms) req res)) = bs
            \<and> res_headers (snd (handleStaticFiles E (m # ms) req res)) ''Content-Length''
                = Some (HNum (Num (int (length bs)))))"
proof -
  have t: "handleStaticFiles_try E req res absolutePath (options m) =
           (if dotfiles (options m) = ''deny'' then (Inl (HttpError 403 ''Forbidden''), res)
            else if dotfiles (options m) = ''ignore'' then (Inl (HttpError 404 ''Not Found''), res)
            else serveStaticFile E req res absolutePath (options m))"
    using assms(4-6) by (simp add: handleStaticFiles_try_def stat_def)
  obtain x r' where s: "serveStaticFile E req res absolutePath (options m) = (x, r')"
    by (cases "serveStaticFile E req res absolutePath (options m)") auto
  have ne: "\<And>err. x = Inl err \<Longrightarrow> err_code err \<noteq> Some ''ENOENT''"
    using s serveStaticFile_no_ENOENT by blast
  have eq: "handleStaticFiles E (m # ms) req res =
           (if dotfiles (options m) = ''deny'' then (Inl (HttpError 403 ''Forbidden''), res)
            else if dotfiles (options m) = ''ignore'' then (Inl (HttpError 404 ''Not Found''), res)
            else serveStaticFile E req res absolutePath (options m))"
    using assms(1-3) t s ne by (cases x) (simp_all add: Let_def)
  have "fst (handleStaticFiles E (m # ms) req res) = Inr Undefined
            \<and> statusCode (snd (handleStaticFiles E (m # ms) req res)) = 200
            \<and> body (snd (handleStaticFiles E (m # ms) req res)) = bs
            \<and> res_headers (snd (handleStaticFiles E (m # ms) req res)) ''Content-Length''
                = Some (HNum (Num (int (length bs))))"
    if a: "dotfiles (options m) = ''allow''" "node = RegularFile bs t"
      "\<not> (etag (options m) \<and> req_headers req ''if-none-match'' = Some (etag_value (length bs) t))"
      "\<not> str_truthy (req_headers req ''range'')" "res = new_response"
  proof -
    from assms(4) a(2) have f: "fs E absolutePath = Inr (RegularFile bs t)" by simp
    from a(1) have e: "handleStaticFiles E (m # ms) req res
                         = serveStaticFile E req res absolutePath (options m)"
      unfolding eq by simp
    show ?thesis
      unfolding e using serveStaticFile_plain [OF f a(3) a(4), of res] a(5)
      by (simp add: new_response_def)
  qed
  with eq show ?thesis by blast
qed

theorem dotfile_policy_witness:
  "startsWith (req_path (ex_request ''/static/.env'' None None)) ''/static''
   \<and> ''/srv/www/.env''
       = path_join ''/srv/www'' (drop (length ''/static'') (req_path (ex_request ''/static/.env'' None None)))
   \<and> fs ex_env ''/srv/www/.env'' = Inr (RegularFile [83, 61, 49] 1700000000456)
   \<and> startsWith (path_basename ''/srv/www/.env'') ''.''
   \<and> handleStaticFiles ex_env [ex_mount_deny] (ex_request ''/static/.env'' None None) new_response
       = (Inl (HttpError 403 ''Forbidden''), new_response)
   \<and> handleStaticFiles ex_env [ex_mount] (ex_request ''/static/.env'' None None) new_response
       = (Inl (HttpError 404 ''Not Found''), new_response)
   \<and> fst (handleStaticFiles ex_env [ex_mount_allow]
            (ex_request ''/static/.env'' None None) new_response) = Inr Undefined
   \<and> statusCode (snd (handleStaticFiles ex_env [ex_mount_allow]
            (ex_request ''/static/.env'' None None) new_response)) = 200
   \<and> body (snd (handleStaticFiles ex_env [ex_mount_allow]
            (ex_request ''/static/.env'' None None) new_response)) = [83, 61, 49]"
proof -
  let ?req = "ex_request ''/static/.env'' None None"
  have u: "urlPath ex_mount_deny = ''/static''" "urlPath ex_mount = ''/static''"
      "urlPath ex_mount_allow = ''/static''"
    and d: "dirPath ex_mount_deny = ''/srv/www''" "dirPath ex_mount = ''/srv/www''"
      "dirPath ex_mount_allow = ''/srv/www''"
    and o: "dotfiles (options ex_mount_deny) = ''deny''" "dotfiles (options ex_mount) = ''ignore''"
      "dotfiles (options ex_mount_allow) = ''allow''"
    by (simp_all add: ex_eval)
  have m: "startsWith (req_path ?req) ''/static''"
    by (simp add: path_eval ex_eval)
  have a: "''/srv/www/.env'' = path_join ''/srv/www'' (drop (length ''/static'') (req_path ?req))"
    by (simp add: path_eval ex_eval)
  have i: "startsWith ''/srv/www/.env'' ''/srv/www''"
    by (simp add: path_eval)
  have f: "fs ex_env ''/srv/www/.env'' = Inr (RegularFile [83, 61, 49] 1700000000456)"
    by (simp add: ex_eval)
  have n: "\<not> isDirectory (RegularFile [83, 61, 49] 1700000000456)"
    by simp
  have b: "startsWith (path_basename ''/srv/www/.env'') ''.''"
    by (simp add: path_eval)
  have h: "\<not> (etag (options ex_mount_allow)
              \<and> req_headers ?req ''if-none-match''
                  = Some (etag_value (length [83, 61, 49 :: byte]) 1700000000456))"
      "\<not> str_truthy (req_headers ?req ''range'')"
    by (simp_all add: ex_request_def)
  have deny: "handleStaticFiles ex_env [ex_mount_deny] ?req new_response
                = (Inl (HttpError 403 ''Forbidden''), new_response)"
    using dotfile_policy [of ?req ex_mount_deny "''/srv/www/.env''" ex_env _ "[]" new_response,
                          unfolded u d o, OF m a i f n b]
    by simp
  have ignore: "handleStaticFiles ex_env [ex_mount] ?req new_response
                = (Inl (HttpError 404 ''Not Found''), new_response)"
    using dotfile_policy [of ?req ex_mount "''/srv/www/.env''" ex_env _ "[]" new_response,
                          unfolded u d o, OF m a i f n b]
    by simp
  have allow: "fst (handleStaticFiles ex_env [ex_mount_allow] ?req new_response) = Inr Undefined
     \<and> statusCode (snd (handleStaticFiles ex_env [ex_mount_allow] ?req new_response)) = 200
     \<and> body (snd (handleStaticFiles ex_env [ex_mount_allow] ?req new_response)) = [83, 61, 49]"
    using dotfile_policy [of ?req ex_mount_allow "''/srv/www/.env''" ex_env _ "[]" new_response
                             "[83, 61, 49]" 1700000000456,
                          unfolded u d, OF m a i f n b] o(3) h
    by blast
  from m a f b deny ignore allow show ?thesis
    by blast
qed

text \<open>
  The claim as the spec words it fails for an index file whose name begins with a dot:
  with \<^verbatim>\<open>{index: '.index.html', dotfiles: 'deny'}\<close> a request for the directory is
  answered with status 200 and the content of \<^verbatim>\<open>/srv/www/.index.html\<close>. And a dotfile
  under \<^verbatim>\<open>allow\<close> that is requested with a \<^verbatim>\<open>Range\<close> header is answered with 206.
\<close>

theorem dot_index_served_under_deny:
  "dotfiles (options ex_mount_deny) = ''deny''
   \<and> path_basename ''/srv/www/.index.html'' = ''.index.html''
   \<and> fst (handleStaticFiles ex_env [ex_mount_deny]
            (ex_request ''/static/'' None None) new_response) = Inr Undefined
   \<and> statusCode (snd (handleStaticFiles ex_env [ex_mount_deny]
            (ex_request ''/static/'' None None) new_response)) = 200
   \<and> body (snd (handleStaticFiles ex_env [ex_mount_deny]
            (ex_request ''/static/'' None None) new_response)) = [60, 112, 62]
   \<and> dotfiles (options ex_mount_allow) = ''allow''
   \<and> statusCode (snd (handleStaticFiles ex_env [ex_mount_allow]
            (ex_request ''/static/.env'' (Some ''bytes=0-0'') None) new_response)) = 206"
  by (simp add: path_eval serve_eval ex_eval)

subsection \<open>Cache-Control\<close>

text \<open>
  Claim C8, as the code has it. The option \<^verbatim>\<open>maxAge\<close> is a number of milliseconds. For
  a mount registered with \<^verbatim>\<open>maxAge\<close> equal to a positive integer \<open>ms\<close>, every response
  for a regular file that is not a 304 carries
  \<^verbatim>\<open>Cache-Control: public, max-age=<floor(ms / 1000)>\<close>; a 304 response is ended before
  the header is set.
\<close>

theorem cache_control_max_age:
  assumes "url \<noteq> []" "dir \<noteq> []"
    and "u_maxAge uo = Some ms" "0 < ms"
    and "fs E p = Inr (RegularFile bs t)"
  shows "static E [] url dir uo
           = Inr [\<lparr>urlPath = url, dirPath = path_resolve (cwd E) dir, options = staticOptions uo\<rparr>]
       \<and> maxAge (staticOptions uo) = ms
       \<and> res_headers (snd (serveStaticFile E req res p (staticOptions uo))) ''Cache-Control''
           = (if etag (staticOptions uo)
                 \<and> req_headers req ''if-none-match'' = Some (etag_value (length bs) t)
              then res_headers res ''Cache-Control''
              else Some (HStr (''public, max-age='' @ show_int (ms div 1000))))"
proof -
  have reg: "static E [] url dir uo
           = Inr [\<lparr>urlPath = url, dirPath = path_resolve (cwd E) dir, options = staticOptions uo\<rparr>]"
    using assms(1,2) by (simp add: static_def)
  have ma: "maxAge (staticOptions uo) = ms"
    using assms(3) by (simp add: staticOptions_def)
  have nz: "maxAge (staticOptions uo) \<noteq> 0"
    using ma assms(4) by simp
  have "res_headers (snd (serveStaticFile_try E req res p (staticOptions uo))) ''Cache-Control''
           = (if etag (staticOptions uo)
                 \<and> req_headers req ''if-none-match'' = Some (etag_value (length bs) t)
              then res_headers res ''Cache-Control''
              else Some (HStr (''public, max-age='' @ show_int (ms div 1000))))"
    using assms(5) nz
    by (auto simp: serveStaticFile_try_def stat_def Let_def ma setHeader_def status_def
                   end_response_def pipe_def
             split: sum.splits)
  with reg ma show ?thesis
    by (simp add: serveStaticFile_regular [OF assms(5)])
qed

theorem cache_control_max_age_witness:
  "u_maxAge (no_options\<lparr>u_maxAge := Some 60000\<rparr>) = Some 60000 \<and> (0::int) < 60000
   \<and> fs ex_env ''/srv/www/hello.txt''
       = Inr (RegularFile [104, 101, 108, 108, 111, 44, 32, 119, 111, 114] 1700000000123)
   \<and> static ex_env [] ''/static'' ''/srv/www'' (no_options\<lparr>u_maxAge := Some 60000\<rparr>)
       = Inr [ex_mount_maxAge 60000]
   \<and> res_headers (snd (serveStaticFile ex_env (ex_request ''/static/hello.txt'' None None)
         new_response ''/srv/www/hello.txt'' (options (ex_mount_maxAge 60000)))) ''Cache-Control''
       = Some (HStr ''public, max-age=60'')"
proof -
  let ?uo = "no_options\<lparr>u_maxAge := Some 60000\<rparr>"
  let ?req = "ex_request ''/static/hello.txt'' None None"
  have u: "''/static'' \<noteq> []" and d: "''/srv/www'' \<noteq> []"
    by simp_all
  have a: "u_maxAge ?uo = Some 60000" and pos: "(0::int) < 60000"
    by simp_all
  have pr: "path_resolve (cwd ex_env) ''/srv/www'' = ''/srv/www''"
    by (simp add: path_eval ex_eval)
  have h: "req_headers ?req ''if-none-match'' = None"
    by (simp add: ex_request_def)
  have sh: "show_int (60000 div 1000) = ''60''"
    by (simp add: show_eval)
  have o: "options (ex_mount_maxAge 60000) = staticOptions ?uo"
    by (simp add: ex_mount_maxAge_def)
  have mk: "\<lparr>urlPath = ''/static'', dirPath = ''/srv/www'', options = staticOptions ?uo\<rparr>
             = ex_mount_maxAge 60000"
    by (simp add: ex_mount_maxAge_def)
  note th = cache_control_max_age [where res = new_response and req = ?req,
                                    OF u d a pos ex_hello]
  from th have r: "static ex_env [] ''/static'' ''/srv/www'' ?uo = Inr [ex_mount_maxAge 60000]"
    unfolding pr mk by blast
  from th have c: "res_headers (snd (serveStaticFile ex_env ?req new_response
        ''/srv/www/hello.txt'' (options (ex_mount_maxAge 60000)))) ''Cache-Control''
      = Some (HStr ''public, max-age=60'')"
    unfolding o h sh by simp
  from a pos ex_hello r c show ?thesis
    by blast
qed

text \<open>
  The claim as the spec words it fails: a mount registered with \<^verbatim>\<open>maxAge\<close> 5 answers
  with \<^verbatim>\<open>max-age=0\<close>, and the 304 response of a mount registered with \<^verbatim>\<open>maxAge\<close>
  60000 carries no \<^verbatim>\<open>Cache-Control\<close> header.
\<close>

theorem max_age_is_in_milliseconds:
  "static ex_env [] ''/static'' ''/srv/www'' (no_options\<lparr>u_maxAge := Some 5\<rparr>)
     = Inr [ex_mount_maxAge 5]
   \<and> statusCode (snd (handleStaticFiles ex_env [ex_mount_maxAge 5]
          (ex_request ''/static/hello.txt'' None None) new_response)) = 200
   \<and> res_headers (snd (handleStaticFiles ex_env [ex_mount_maxAge 5]
          (ex_request ''/static/hello.txt'' None None) new_response)) ''Cache-Control''
       = Some (HStr ''public, max-age=0'')
   \<and> statusCode (snd (handleStaticFiles ex_env [ex_mount_maxAge 60000]
          (ex_request ''/static/hello.txt'' None
             (Some (''W/'' @ [CHR 0x22] @ ''10-1700000000123'' @ [CHR 0x22]))) new_response)) = 304
   \<and> res_headers (snd (handleStaticFiles ex_env [ex_mount_maxAge 60000]
          (ex_request ''/static/hello.txt'' None
             (Some (''W/'' @ [CHR 0x22] @ ''10-1700000000123'' @ [CHR 0x22]))) new_response))
        ''Cache-Control'' = None"
  by (simp add: static_def path_eval serve_eval ex_eval etag_value_def show_eval)

subsection \<open>\<^verbatim>\<open>res.sendFile\<close> and \<^verbatim>\<open>res.download\<close> without a request in scope\<close>

text \<open>
  Claim C10, as the code has it. With no binding of \<^verbatim>\<open>req\<close> in the enclosing scope,
  \<^verbatim>\<open>res.sendFile\<close> fails for every path with \<^verbatim>\<open>HttpError(500, 'req is not defined')\<close>
  and leaves the response untouched. \<^verbatim>\<open>res.download\<close> calls \<^verbatim>\<open>stat\<close> first: a failed
  \<^verbatim>\<open>stat\<close> surfaces as an \<^verbatim>\<open>HttpError\<close> with status 500 and the message of the
  failure, a path that is not a regular file as \<^verbatim>\<open>HttpError(404, 'File Not Found')\<close>, and
  a regular file as \<^verbatim>\<open>HttpError(500, 'req is not defined')\<close>. Neither helper writes a
  byte, sets a status or ends the response.
\<close>

theorem sendFile_download_never_stream:
  assumes "outer ''req'' = None"
  shows "sendFile E outer res filePath opts = (Inl (HttpError 500 ''req is not defined''), res)
       \<and> fst (download E outer res filePath filename)
           = (case fs E (path_resolve (cwd E) filePath) of
                Inl (c, msg) \<Rightarrow> Inl (HttpError 500 msg)
              | Inr node \<Rightarrow>
                  if isFile node then Inl (HttpError 500 ''req is not defined'')
                  else Inl (HttpError 404 ''File Not Found''))
       \<and> statusCode (snd (download E outer res filePath filename)) = statusCode res
       \<and> body (snd (download E outer res filePath filename)) = body res
       \<and> writableEnded (snd (download E outer res filePath filename)) = writableEnded res"
  using assms
  by (auto simp: sendFile_def download_def lookup_req_def wrap_error_def stat_def Let_def
                 setHeader_def
           split: sum.splits prod.splits)

theorem sendFile_download_never_stream_witness:
  "module_scope ''req'' = None
   \<and> sendFile ex_env module_scope new_response ''/srv/www/hello.txt'' empty_options
       = (Inl (HttpError 500 ''req is not defined''), new_response)
   \<and> fst (download ex_env module_scope new_response ''/srv/www/hello.txt'' None)
       = Inl (HttpError 500 ''req is not defined'')
   \<and> fst (download ex_env module_scope new_response ''/srv/www/missing.txt'' None)
       = Inl (HttpError 500 ''ENOENT: no such file or directory'')
   \<and> body (snd (download ex_env module_scope new_response ''/srv/www/hello.txt'' None)) = []
   \<and> writableEnded (snd (download ex_env module_scope new_response ''/srv/www/hello.txt'' None))
       = False"
proof -
  have n: "module_scope ''req'' = None"
    by (simp add: module_scope_def)
  have p: "path_resolve (cwd ex_env) ''/srv/www/hello.txt'' = ''/srv/www/hello.txt''"
      "path_resolve (cwd ex_env) ''/srv/www/missing.txt'' = ''/srv/www/missing.txt''"
    by (simp_all add: path_eval ex_eval)
  have f: "fs ex_env ''/srv/www/missing.txt'' = Inl (''ENOENT'', ''ENOENT: no such file or directory'')"
    by (simp add: ex_eval)
  have b: "body new_response = []" "writableEnded new_response = False"
    by (simp_all add: new_response_def)
  note th1 = sendFile_download_never_stream [where outer = module_scope and E = ex_env
               and res = new_response and filePath = "''/srv/www/hello.txt''"
               and opts = empty_options and filename = None, OF n]
  note th2 = sendFile_download_never_stream [where outer = module_scope and E = ex_env
               and res = new_response and filePath = "''/srv/www/missing.txt''"
               and opts = empty_options and filename = None, OF n]
  from th1 have s: "sendFile ex_env module_scope new_response ''/srv/www/hello.txt'' empty_options
       = (Inl (HttpError 500 ''req is not defined''), new_response)"
    by blast
  from th1 have d1: "fst (download ex_env module_scope new_response ''/srv/www/hello.txt'' None)
       = Inl (HttpError 500 ''req is not defined'')"
    unfolding p ex_hello by simp
  from th2 have d2: "fst (download ex_env module_scope new_response ''/srv/www/missing.txt'' None)
       = Inl (HttpError 500 ''ENOENT: no such file or directory'')"
    unfolding p f by simp
  from th1 have d3: "body (snd (download ex_env module_scope new_response ''/srv/www/hello.txt'' None)) = []"
    "writableEnded (snd (download ex_env module_scope new_response ''/srv/www/hello.txt'' None)) = False"
    unfolding b by blast+
  from n s d1 d2 d3 show ?thesis
    by blast
qed

text \<open>
  The claim as the spec words it fails for \<^verbatim>\<open>res.download\<close> of a path that is not a
  regular file: the error is the \<^verbatim>\<open>HttpError\<close> with status 404 of line 115, thrown before
  \<^verbatim>\<open>req\<close> is evaluated. For a missing file the status is 500, but the error wrapped is
  the failure of \<^verbatim>\<open>stat\<close>, not a \<^verbatim>\<open>ReferenceError\<close>.
\<close>

theorem download_of_directory_is_404:
  "module_scope ''req'' = None
   \<and> fs ex_env (path_resolve (cwd ex_env) ''/srv/www/docs'') = Inr Directory
   \<and> fst (download ex_env module_scope new_response ''/srv/www/docs'' None)
       = Inl (HttpError 404 ''File Not Found'')
   \<and> fst (download ex_env module_scope new_response ''/srv/www/missing.txt'' None)
       = Inl (HttpError 500 ''ENOENT: no such file or directory'')"
  by (simp add: download_def wrap_error_def lookup_req_def module_scope_def path_eval serve_eval
                ex_eval)

end
